theory Spec2Isabelle
  imports Main
begin

section \<open>Data model of \<open>EmployeeContext.tsx\<close>\<close>

text \<open>
  The TypeScript interfaces become records. An optional field (\<open>dosage?: string\<close>) is an
  \<open>option\<close>. Several interfaces share field names (\<open>name\<close>, \<open>phone\<close>, \<open>data\<close>);
  where it matters the qualified selector (\<open>Envelope.data\<close>) is written.
  The \<open>number\<close> field \<open>age\<close> is only carried around, never computed on, and is an \<open>int\<close> here.
\<close>

record EmergencyContact =
  name :: string
  phone :: string
  relationship :: string

record Medication =
  name :: string
  dosage :: "string option"
  frequency :: "string option"

record Physician =
  name :: string
  phone :: string
  specialty :: "string option"

record Insurance =
  provider :: string
  memberId :: string
  groupNumber :: "string option"

text \<open>
  \<open>Omit<Employee, '_id'>\<close>, the payload of \<open>createEmployee\<close>, is the record without the
  identifier; \<open>Employee\<close> extends it by the field \<open>_id\<close> (an Isabelle name cannot start with
  an underscore, so the field is \<open>underscore_id\<close>; \<open>notes\<close> is a keyword of
  Isabelle, so that field is \<open>notes'\<close>).
\<close>

record EmployeeData =
  employeeId :: string
  name :: string
  dob :: string
  age :: int
  bloodGroup :: string
  allergies :: "string list"
  medications :: "Medication list"
  emergencyContacts :: "EmergencyContact list"
  physician :: Physician
  insurance :: Insurance
  qrCodeUrl :: "string option"
  medicalConditions :: "string list option"
  notes' :: "string option"
  createdAt :: "string option"
  updatedAt :: "string option"

record Employee = EmployeeData +
  underscore_id :: string

text \<open>\<open>Partial<Employee>\<close>, the payload of \<open>updateEmployee\<close>: every field optional.\<close>

record PartialEmployee =
  p_underscore_id :: "string option"
  p_employeeId :: "string option"
  p_name :: "string option"
  p_dob :: "string option"
  p_age :: "int option"
  p_bloodGroup :: "string option"
  p_allergies :: "string list option"
  p_medications :: "Medication list option"
  p_emergencyContacts :: "EmergencyContact list option"
  p_physician :: "Physician option"
  p_insurance :: "Insurance option"
  p_qrCodeUrl :: "string option"
  p_medicalConditions :: "string list option"
  p_notes :: "string option"
  p_createdAt :: "string option"
  p_updatedAt :: "string option"

subsection \<open>The HTTP client as seen by the context\<close>

text \<open>
  A fulfilled axios promise yields a response whose \<open>data\<close> is the JSON body; the server's
  success body is the envelope \<open>{ data: payload }\<close>, so the code reads
  \<open>response.data.data\<close>. The payload types are the ones the TypeScript signatures promise
  (\<open>Employee[]\<close>, \<open>Employee\<close>, an object with \<open>qrCodeDataUrl\<close>).
\<close>

record 'p Envelope =
  data :: 'p

record 'b AxiosResponse =
  data :: 'b

record QRPayload =
  qrCodeDataUrl :: string

subsection \<open>JavaScript values\<close>

text \<open>
  The \<open>catch\<close> blocks take \<open>error: any\<close>: what the code reads out of a failure response
  is whatever the JSON body holds, not only a string. A number is kept as what the code
  can observe of it: whether it is zero (the falsy numbers \<open>0\<close> and \<open>-0\<close>; JSON has no
  \<open>NaN\<close>) and its string form \<open>String(n)\<close>. An object is its list of members, a later
  member with the same key overriding an earlier one.
\<close>

datatype js_number = Number (is_zero: bool) (text_of: string)

datatype js_value =
    JNull
  | JBool bool
  | JNumber js_number
  | JString string
  | JArray "js_value list"
  | JObject "(string \<times> js_value) list"

text \<open>What \<open>||\<close> tests: \<open>null\<close>, \<open>false\<close>, zero and the empty string are falsy.\<close>

fun truthy :: "js_value \<Rightarrow> bool" where
  "truthy JNull = False"
| "truthy (JBool b) = b"
| "truthy (JNumber n) = (\<not> is_zero n)"
| "truthy (JString s) = (s \<noteq> [])"
| "truthy (JArray xs) = True"
| "truthy (JObject kvs) = True"

text \<open>
  The string conversion that \<open>new Error(x)\<close> applies to its argument. An array is its
  elements joined by commas, \<open>null\<close> elements being empty; an object is
  \<open>[object Object]\<close>, unless it has a member \<open>toString\<close> of its own: that member is not a
  function, and the conversion throws a \<open>TypeError\<close> (\<open>None\<close>).
\<close>

fun to_string :: "js_value \<Rightarrow> string option"
  and join_elements :: "js_value list \<Rightarrow> string option" where
  "to_string JNull = Some ''null''"
| "to_string (JBool b) = Some (if b then ''true'' else ''false'')"
| "to_string (JNumber n) = Some (text_of n)"
| "to_string (JString s) = Some s"
| "to_string (JArray xs) = join_elements xs"
| "to_string (JObject kvs) =
     (if ''toString'' \<in> set (map fst kvs) then None else Some ''[object Object]'')"
| "join_elements [] = Some []"
| "join_elements (x # xs) =
     (case (if x = JNull then Some [] else to_string x) of
        None \<Rightarrow> None
      | Some a \<Rightarrow>
          if xs = [] then Some a
          else (case join_elements xs of
                  None \<Rightarrow> None
                | Some b \<Rightarrow> Some (a @ '','' @ b)))"

text \<open>The read \<open>body.message\<close>: only an object has such a member; \<open>None\<close> is \<open>undefined\<close>.\<close>

fun message :: "js_value \<Rightarrow> js_value option" where
  "message (JObject kvs) = map_of (rev kvs) ''message''"
| "message v = None"

subsection \<open>Failures and promises\<close>

text \<open>
  A rejected axios promise yields an error object. The code reads
  \<open>error.response?.data?.message\<close>: the response is absent on a network error, and its
  \<open>data\<close>, the parsed body, may be absent.
\<close>

record ErrorResponse =
  data :: "js_value option"

record AxiosError =
  response :: "ErrorResponse option"

text \<open>How the awaited request settles; the context code does not decide this, the network does.\<close>

datatype 'r settled = Resolved 'r | Rejected AxiosError

text \<open>
  The promise an \<open>async\<close> operation returns: \<open>Inr v\<close> when it resolves with \<open>v\<close>,
  \<open>Inl e\<close> when it rejects with \<open>e\<close>. The operations throw \<open>new Error(x)\<close>: an \<open>Error\<close>
  whose message is the string form of \<open>x\<close>, or the \<open>TypeError\<close> of the conversion.
\<close>

datatype js_error = Error string | TypeError

definition new_Error :: "js_value \<Rightarrow> js_error" where
  "new_Error x = (case to_string x of None \<Rightarrow> TypeError | Some m \<Rightarrow> Error m)"

type_synonym 'a promise = "js_error + 'a"

subsection \<open>The provider's state\<close>

text \<open>
  The four \<open>useState\<close> cells of \<open>EmployeeProvider\<close>. The error slot is \<open>null\<close> (\<open>None\<close>)
  or holds what \<open>setError\<close> was given, which at run time is any value.
\<close>

record provider_state =
  employees :: "Employee list"
  currentEmployee :: "Employee option"
  loading :: bool
  error :: "js_value option"

definition initial_state :: provider_state where
  "initial_state = \<lparr>employees = [], currentEmployee = None, loading = False, error = None\<rparr>"

text \<open>
  The setters. \<open>setEmployees\<close> is called both with a value and with an updater
  \<open>prev => ...\<close>; the model takes the updater, and a value \<open>v\<close> is the updater \<open>\<lambda>_. v\<close>.
\<close>

definition setEmployees :: "(Employee list \<Rightarrow> Employee list) \<Rightarrow> provider_state \<Rightarrow> provider_state" where
  "setEmployees f s = s\<lparr>employees := f (employees s)\<rparr>"

definition setCurrentEmployee :: "Employee option \<Rightarrow> provider_state \<Rightarrow> provider_state" where
  "setCurrentEmployee v s = s\<lparr>currentEmployee := v\<rparr>"

definition setLoading :: "bool \<Rightarrow> provider_state \<Rightarrow> provider_state" where
  "setLoading v s = s\<lparr>loading := v\<rparr>"

definition setError :: "js_value option \<Rightarrow> provider_state \<Rightarrow> provider_state" where
  "setError v s = s\<lparr>error := v\<rparr>"

section \<open>The operations\<close>

text \<open>
  \<open>error.response?.data?.message\<close>: \<open>None\<close> is \<open>undefined\<close>, and \<open>?.\<close> stops at
  \<open>undefined\<close> and at \<open>null\<close>.
\<close>

definition response_data_message :: "AxiosError \<Rightarrow> js_value option" where
  "response_data_message err =
     (case response err of
        None \<Rightarrow> None
      | Some r \<Rightarrow> (case ErrorResponse.data r of
                    None \<Rightarrow> None
                  | Some JNull \<Rightarrow> None
                  | Some body \<Rightarrow> message body))"

text \<open>
  \<open>m || fallback\<close>: the left operand itself when it is truthy, the fallback text when it
  is \<open>undefined\<close> or another falsy value.
\<close>

definition or_fallback :: "js_value option \<Rightarrow> string \<Rightarrow> js_value" where
  "or_fallback m fallback =
     (case m of
        None \<Rightarrow> JString fallback
      | Some v \<Rightarrow> if truthy v then v else JString fallback)"

text \<open>
  Every operation is an \<open>async\<close> function with one \<open>await\<close>. It runs in two steps:
  the call runs the body up to the \<open>await\<close> (\<open>setLoading(true); setError(null)\<close>, then the
  request is issued), and when the request has settled the rest of the body runs on the
  state of that moment (\<open>_resume\<close>): the \<open>try\<close> or the \<open>catch\<close> branch, then \<open>finally\<close>.
  The operation run on its own is the second step on the result of the first.
  The source's local \<open>response\<close> and \<open>error\<close> are \<open>resp\<close> and \<open>err\<close>, the plain names
  being the selectors of \<open>AxiosError\<close> and of the state; the parameter \<open>id\<close> is \<open>id'\<close>.
\<close>

definition fetchEmployees_call :: "provider_state \<Rightarrow> provider_state" where
  "fetchEmployees_call s = setError None (setLoading True s)"

definition fetchEmployees_resume ::
  "Employee list Envelope AxiosResponse settled \<Rightarrow> provider_state \<Rightarrow> unit promise \<times> provider_state" where
  "fetchEmployees_resume http s =
     (case http of
        Resolved resp \<Rightarrow>
          let s1 = setEmployees (\<lambda>_. Envelope.data (AxiosResponse.data resp)) s
          in (Inr (), setLoading False s1)
      | Rejected err \<Rightarrow>
          let s1 = setError (Some (or_fallback (response_data_message err) ''Failed to fetch employees'')) s
          in (Inr (), setLoading False s1))"

definition fetchEmployees ::
  "Employee list Envelope AxiosResponse settled \<Rightarrow> provider_state \<Rightarrow> unit promise \<times> provider_state" where
  "fetchEmployees http s = fetchEmployees_resume http (fetchEmployees_call s)"

definition fetchEmployee_call :: "string \<Rightarrow> provider_state \<Rightarrow> provider_state" where
  "fetchEmployee_call id' s = setError None (setLoading True s)"

definition fetchEmployee_resume ::
  "string \<Rightarrow> Employee Envelope AxiosResponse settled \<Rightarrow> provider_state \<Rightarrow> Employee promise \<times> provider_state" where
  "fetchEmployee_resume id' http s =
     (case http of
        Resolved resp \<Rightarrow>
          let employee = Envelope.data (AxiosResponse.data resp);
              s1 = setCurrentEmployee (Some employee) s
          in (Inr employee, setLoading False s1)
      | Rejected err \<Rightarrow>
          let errorMessage = or_fallback (response_data_message err) ''Failed to fetch employee'';
              s1 = setError (Some errorMessage) s
          in (Inl (new_Error errorMessage), setLoading False s1))"

definition fetchEmployee ::
  "string \<Rightarrow> Employee Envelope AxiosResponse settled \<Rightarrow> provider_state \<Rightarrow> Employee promise \<times> provider_state" where
  "fetchEmployee id' http s = fetchEmployee_resume id' http (fetchEmployee_call id' s)"

definition createEmployee_call :: "EmployeeData \<Rightarrow> provider_state \<Rightarrow> provider_state" where
  "createEmployee_call employeeData s = setError None (setLoading True s)"

definition createEmployee_resume ::
  "EmployeeData \<Rightarrow> Employee Envelope AxiosResponse settled \<Rightarrow> provider_state \<Rightarrow> Employee promise \<times> provider_state" where
  "createEmployee_resume employeeData http s =
     (case http of
        Resolved resp \<Rightarrow>
          let newEmployee = Envelope.data (AxiosResponse.data resp);
              s1 = setEmployees (\<lambda>prev. newEmployee # prev) s
          in (Inr newEmployee, setLoading False s1)
      | Rejected err \<Rightarrow>
          let errorMessage = or_fallback (response_data_message err) ''Failed to create employee'';
              s1 = setError (Some errorMessage) s
          in (Inl (new_Error errorMessage), setLoading False s1))"

definition createEmployee ::
  "EmployeeData \<Rightarrow> Employee Envelope AxiosResponse settled \<Rightarrow> provider_state \<Rightarrow> Employee promise \<times> provider_state" where
  "createEmployee employeeData http s =
     createEmployee_resume employeeData http (createEmployee_call employeeData s)"

definition updateEmployee_call :: "string \<Rightarrow> PartialEmployee \<Rightarrow> provider_state \<Rightarrow> provider_state" where
  "updateEmployee_call id' employeeData s = setError None (setLoading True s)"

definition updateEmployee_resume ::
  "string \<Rightarrow> PartialEmployee \<Rightarrow> Employee Envelope AxiosResponse settled \<Rightarrow> provider_state
     \<Rightarrow> Employee promise \<times> provider_state" where
  "updateEmployee_resume id' employeeData http s =
     (case http of
        Resolved resp \<Rightarrow>
          let updatedEmployee = Envelope.data (AxiosResponse.data resp);
              s1 = setEmployees (\<lambda>prev. map (\<lambda>emp. if underscore_id emp = id' then updatedEmployee else emp) prev) s
          in (Inr updatedEmployee, setLoading False s1)
      | Rejected err \<Rightarrow>
          let errorMessage = or_fallback (response_data_message err) ''Failed to update employee'';
              s1 = setError (Some errorMessage) s
          in (Inl (new_Error errorMessage), setLoading False s1))"

definition updateEmployee ::
  "string \<Rightarrow> PartialEmployee \<Rightarrow> Employee Envelope AxiosResponse settled \<Rightarrow> provider_state
     \<Rightarrow> Employee promise \<times> provider_state" where
  "updateEmployee id' employeeData http s =
     updateEmployee_resume id' employeeData http (updateEmployee_call id' employeeData s)"

text \<open>\<open>deleteEmployee\<close> does not read the response of a fulfilled request.\<close>

definition deleteEmployee_call :: "string \<Rightarrow> provider_state \<Rightarrow> provider_state" where
  "deleteEmployee_call id' s = setError None (setLoading True s)"

definition deleteEmployee_resume ::
  "string \<Rightarrow> 'r settled \<Rightarrow> provider_state \<Rightarrow> unit promise \<times> provider_state" where
  "deleteEmployee_resume id' http s =
     (case http of
        Resolved resp \<Rightarrow>
          let s1 = setEmployees (\<lambda>prev. filter (\<lambda>emp. underscore_id emp \<noteq> id') prev) s
          in (Inr (), setLoading False s1)
      | Rejected err \<Rightarrow>
          let errorMessage = or_fallback (response_data_message err) ''Failed to delete employee'';
              s1 = setError (Some errorMessage) s
          in (Inl (new_Error errorMessage), setLoading False s1))"

definition deleteEmployee ::
  "string \<Rightarrow> 'r settled \<Rightarrow> provider_state \<Rightarrow> unit promise \<times> provider_state" where
  "deleteEmployee id' http s = deleteEmployee_resume id' http (deleteEmployee_call id' s)"

definition generateQRCode_call :: "string \<Rightarrow> provider_state \<Rightarrow> provider_state" where
  "generateQRCode_call id' s = setError None (setLoading True s)"

definition generateQRCode_resume ::
  "string \<Rightarrow> QRPayload Envelope AxiosResponse settled \<Rightarrow> provider_state \<Rightarrow> string promise \<times> provider_state" where
  "generateQRCode_resume id' http s =
     (case http of
        Resolved resp \<Rightarrow>
          (Inr (qrCodeDataUrl (Envelope.data (AxiosResponse.data resp))), setLoading False s)
      | Rejected err \<Rightarrow>
          let errorMessage = or_fallback (response_data_message err) ''Failed to generate QR code'';
              s1 = setError (Some errorMessage) s
          in (Inl (new_Error errorMessage), setLoading False s1))"

definition generateQRCode ::
  "string \<Rightarrow> QRPayload Envelope AxiosResponse settled \<Rightarrow> provider_state \<Rightarrow> string promise \<times> provider_state" where
  "generateQRCode id' http s = generateQRCode_resume id' http (generateQRCode_call id' s)"

subsection \<open>Sample values for the concrete instances\<close>

definition sample_employee :: "string \<Rightarrow> string \<Rightarrow> Employee" where
  "sample_employee i n =
     \<lparr>employeeId = ''E-'' @ i, EmployeeData.name = n, dob = ''2000-01-01'', age = 25,
      bloodGroup = ''O+'', allergies = [], medications = [], emergencyContacts = [],
      physician = \<lparr>Physician.name = ''Dr. Rao'', Physician.phone = ''100'', specialty = None\<rparr>,
      insurance = \<lparr>provider = ''Acme'', memberId = ''M1'', groupNumber = None\<rparr>,
      qrCodeUrl = None, medicalConditions = None, notes' = None, createdAt = None,
      updatedAt = None, underscore_id = i\<rparr>"

definition sample_data :: "string \<Rightarrow> string \<Rightarrow> EmployeeData" where
  "sample_data i n = EmployeeData.truncate (sample_employee i n)"


text \<open>A success body \<open>{ data: payload }\<close> in its response.\<close>

definition envelope :: "'p \<Rightarrow> 'p Envelope AxiosResponse" where
  "envelope payload = \<lparr>AxiosResponse.data = \<lparr>Envelope.data = payload\<rparr>\<rparr>"

text \<open>
  The error of a response whose body is \<open>{ message: v }\<close>, for a text and for any value,
  and the error of a request that got no response.
\<close>

definition server_error_with :: "js_value \<Rightarrow> AxiosError" where
  "server_error_with v = \<lparr>response = Some \<lparr>ErrorResponse.data = Some (JObject [(''message'', v)])\<rparr>\<rparr>"

definition server_error :: "string \<Rightarrow> AxiosError" where
  "server_error m = server_error_with (JString m)"

definition network_error :: AxiosError where
  "network_error = \<lparr>response = None\<rparr>"



section \<open>Basic facts\<close>

lemmas setters = setEmployees_def setCurrentEmployee_def setLoading_def setError_def Let_def






lemma response_data_message_server_error:
  "response_data_message (server_error_with v) = Some v"
  "response_data_message (server_error m) = Some (JString m)"
  "response_data_message network_error = None"
  by (simp_all add: response_data_message_def server_error_def server_error_with_def
      network_error_def)


subsection \<open>What a rejected request does, operation by operation\<close>







subsection \<open>What a fulfilled request does to the cache\<close>






text \<open>
  The branch taken after a fulfilled request never writes the error slot: the slot is
  cleared by the call, before the \<open>await\<close>, and only there.
\<close>

lemma resume_resolved_keeps_error:
  "error (snd (fetchEmployees_resume (Resolved r1) s)) = error s"
  "error (snd (fetchEmployee_resume id' (Resolved r2) s)) = error s"
  "error (snd (createEmployee_resume d (Resolved r3) s)) = error s"
  "error (snd (updateEmployee_resume id' p (Resolved r4) s)) = error s"
  "error (snd (deleteEmployee_resume id' (Resolved r5) s)) = error s"
  "error (snd (generateQRCode_resume id' (Resolved r6) s)) = error s"
  by (simp_all add: fetchEmployees_resume_def fetchEmployee_resume_def createEmployee_resume_def
      updateEmployee_resume_def deleteEmployee_resume_def generateQRCode_resume_def setters)

subsection \<open>The loading flag and the error slot around a run\<close>

lemma fetchEmployees_loading:
  "loading (fetchEmployees_call s) = True"
  "loading (snd (fetchEmployees_resume http s1)) = False"
  "loading (snd (fetchEmployees http s)) = False"
  by (cases http; simp add: fetchEmployees_def fetchEmployees_resume_def fetchEmployees_call_def setters)+

lemma fetchEmployee_loading:
  "loading (fetchEmployee_call id' s) = True"
  "loading (snd (fetchEmployee_resume id' http s1)) = False"
  "loading (snd (fetchEmployee id' http s)) = False"
  by (cases http; simp add: fetchEmployee_def fetchEmployee_resume_def fetchEmployee_call_def setters)+

lemma createEmployee_loading:
  "loading (createEmployee_call d s) = True"
  "loading (snd (createEmployee_resume d http s1)) = False"
  "loading (snd (createEmployee d http s)) = False"
  by (cases http; simp add: createEmployee_def createEmployee_resume_def createEmployee_call_def setters)+

lemma updateEmployee_loading:
  "loading (updateEmployee_call id' p s) = True"
  "loading (snd (updateEmployee_resume id' p http s1)) = False"
  "loading (snd (updateEmployee id' p http s)) = False"
  by (cases http; simp add: updateEmployee_def updateEmployee_resume_def updateEmployee_call_def setters)+

lemma deleteEmployee_loading:
  "loading (deleteEmployee_call id' s) = True"
  "loading (snd (deleteEmployee_resume id' http s1)) = False"
  "loading (snd (deleteEmployee id' http s)) = False"
  by (cases http; simp add: deleteEmployee_def deleteEmployee_resume_def deleteEmployee_call_def setters)+

lemma generateQRCode_loading:
  "loading (generateQRCode_call id' s) = True"
  "loading (snd (generateQRCode_resume id' http s1)) = False"
  "loading (snd (generateQRCode id' http s)) = False"
  by (cases http; simp add: generateQRCode_def generateQRCode_resume_def generateQRCode_call_def setters)+

lemma fetchEmployees_error_cleared:
  "error (fetchEmployees_call s) = None"
  "error (snd (fetchEmployees (Resolved resp) s)) = None"
  by (simp_all add: fetchEmployees_def fetchEmployees_resume_def fetchEmployees_call_def setters)

lemma fetchEmployee_error_cleared:
  "error (fetchEmployee_call id' s) = None"
  "error (snd (fetchEmployee id' (Resolved resp) s)) = None"
  by (simp_all add: fetchEmployee_def fetchEmployee_resume_def fetchEmployee_call_def setters)

lemma createEmployee_error_cleared:
  "error (createEmployee_call d s) = None"
  "error (snd (createEmployee d (Resolved resp) s)) = None"
  by (simp_all add: createEmployee_def createEmployee_resume_def createEmployee_call_def setters)

lemma updateEmployee_error_cleared:
  "error (updateEmployee_call id' p s) = None"
  "error (snd (updateEmployee id' p (Resolved resp) s)) = None"
  by (simp_all add: updateEmployee_def updateEmployee_resume_def updateEmployee_call_def setters)

lemma deleteEmployee_error_cleared:
  "error (deleteEmployee_call id' s) = None"
  "error (snd (deleteEmployee id' (Resolved r) s)) = None"
  by (simp_all add: deleteEmployee_def deleteEmployee_resume_def deleteEmployee_call_def setters)

lemma generateQRCode_error_cleared:
  "error (generateQRCode_call id' s) = None"
  "error (snd (generateQRCode id' (Resolved resp) s)) = None"
  by (simp_all add: generateQRCode_def generateQRCode_resume_def generateQRCode_call_def setters)

section \<open>Failure policy\<close>









section \<open>The cached list\<close>













section \<open>The shared flags around a run\<close>

text \<open>
  C8. Each of the six operations sets \<open>loading\<close> to true when it is called (it is true
  while the request is pending) and to false when it completes, on the state of that
  moment, whether the request was fulfilled or rejected. So after an operation run on its
  own \<open>loading\<close> is false, whatever it was before, in particular when it was false.
\<close>

theorem loading_true_then_false:
  "loading (fetchEmployees_call s) \<and> \<not> loading (snd (fetchEmployees_resume http1 s1))
     \<and> \<not> loading (snd (fetchEmployees http1 s))
   \<and> loading (fetchEmployee_call id' s) \<and> \<not> loading (snd (fetchEmployee_resume id' http2 s1))
     \<and> \<not> loading (snd (fetchEmployee id' http2 s))
   \<and> loading (createEmployee_call employeeData s)
     \<and> \<not> loading (snd (createEmployee_resume employeeData http3 s1))
     \<and> \<not> loading (snd (createEmployee employeeData http3 s))
   \<and> loading (updateEmployee_call id' partialData s)
     \<and> \<not> loading (snd (updateEmployee_resume id' partialData http4 s1))
     \<and> \<not> loading (snd (updateEmployee id' partialData http4 s))
   \<and> loading (deleteEmployee_call id' s) \<and> \<not> loading (snd (deleteEmployee_resume id' http5 s1))
     \<and> \<not> loading (snd (deleteEmployee id' http5 s))
   \<and> loading (generateQRCode_call id' s) \<and> \<not> loading (snd (generateQRCode_resume id' http6 s1))
     \<and> \<not> loading (snd (generateQRCode id' http6 s))"
  by (simp only: fetchEmployees_loading fetchEmployee_loading createEmployee_loading
      updateEmployee_loading deleteEmployee_loading generateQRCode_loading simp_thms)

text \<open>
  The slot is not null after every successful operation: the branch taken after a
  fulfilled request does not write it. When a list fetch fails while a create is waiting
  for its response, the create then succeeds and the message of the failed fetch is
  still in the slot.
\<close>

theorem error_after_interleaved_success_counterexample:
  "error (snd (createEmployee_resume (sample_data ''b'' ''Bo'')
       (Resolved (envelope (sample_employee ''b'' ''Bo'')))
       (snd (fetchEmployees (Rejected network_error)
          (createEmployee_call (sample_data ''b'' ''Bo'') initial_state)))))
     = Some (JString ''Failed to fetch employees'')
   \<and> error (snd (createEmployee_resume (sample_data ''b'' ''Bo'')
       (Resolved (envelope (sample_employee ''b'' ''Bo'')))
       (snd (fetchEmployees (Rejected network_error)
          (createEmployee_call (sample_data ''b'' ''Bo'') initial_state)))))
     \<noteq> None"
  by (simp add: resume_resolved_keeps_error fetchEmployees_def fetchEmployees_resume_def
      setters response_data_message_server_error or_fallback_def)

text \<open>
  C10, amended. Each of the six operations clears the shared error slot when it is
  called, before the request is issued, and the branch taken after a fulfilled request
  leaves the slot as it finds it. So after a successful operation during whose request
  no other operation has written the slot (in particular one run on its own) the slot is
  null, whatever message an earlier operation had left in it.
\<close>

theorem error_cleared_before_request:
  "error (fetchEmployees_call s) = None
   \<and> error (snd (fetchEmployees (Resolved resp1) s)) = None
   \<and> error (fetchEmployee_call id' s) = None
   \<and> error (snd (fetchEmployee id' (Resolved resp2) s)) = None
   \<and> error (createEmployee_call employeeData s) = None
   \<and> error (snd (createEmployee employeeData (Resolved resp3) s)) = None
   \<and> error (updateEmployee_call id' partialData s) = None
   \<and> error (snd (updateEmployee id' partialData (Resolved resp4) s)) = None
   \<and> error (deleteEmployee_call id' s) = None
   \<and> error (snd (deleteEmployee id' (Resolved resp5) s)) = None
   \<and> error (generateQRCode_call id' s) = None
   \<and> error (snd (generateQRCode id' (Resolved resp6) s)) = None
   \<and> error (snd (fetchEmployees_resume (Resolved resp1) s1)) = error s1
   \<and> error (snd (fetchEmployee_resume id' (Resolved resp2) s1)) = error s1
   \<and> error (snd (createEmployee_resume employeeData (Resolved resp3) s1)) = error s1
   \<and> error (snd (updateEmployee_resume id' partialData (Resolved resp4) s1)) = error s1
   \<and> error (snd (deleteEmployee_resume id' (Resolved resp5) s1)) = error s1
   \<and> error (snd (generateQRCode_resume id' (Resolved resp6) s1)) = error s1"
  by (simp only: fetchEmployees_error_cleared fetchEmployee_error_cleared createEmployee_error_cleared
      updateEmployee_error_cleared deleteEmployee_error_cleared generateQRCode_error_cleared
      resume_resolved_keeps_error simp_thms)

text \<open>A run of it: a list fetch has failed before, then a create succeeds.\<close>

theorem error_cleared_before_request_witness:
  "error (snd (fetchEmployees (Rejected network_error) initial_state))
     = Some (JString ''Failed to fetch employees'')
   \<and> error (snd (createEmployee (sample_data ''b'' ''Bo'')
        (Resolved (envelope (sample_employee ''b'' ''Bo'')))
        (snd (fetchEmployees (Rejected network_error) initial_state)))) = None"
  using error_cleared_before_request
      [of "snd (fetchEmployees (Rejected network_error) initial_state)" _ "''b''" _
          "sample_data ''b'' ''Bo''" "envelope (sample_employee ''b'' ''Bo'')" _ _ "()" _]
  by (simp add: fetchEmployees_def fetchEmployees_resume_def fetchEmployees_call_def setters
      response_data_message_server_error or_fallback_def)

end
